theory Spec2Isabelle
  imports Main "HOL-Library.Word" "HOL-Library.Multiset"
begin

section \<open>The p2p commands of core/commands/p2p.go\<close>

text \<open>
  The file embeds the \<open>Run\<close> functions of the six p2p commands (forward, listen, ls,
  close, stream ls, stream close) together with \<open>p2pGetNode\<close>, \<open>forwardLocal\<close> and
  \<open>forwardRemote\<close>. A command takes the request and the state reachable from the node
  (the two registries of \<open>n.P2P\<close> and the peerstore) and returns the response and the
  new state, or a Go panic.
\<close>

subsection \<open>Values\<close>

text \<open>A Go \<open>error\<close> is identified with the text its \<open>Error()\<close> method returns.\<close>

datatype error = ErrorString (Error: string)

datatype panic = NilDereference | IndexOutOfRange

text \<open>
  A \<open>ma.Multiaddr\<close> is identified with its binary encoding; \<open>Equal\<close> of go-multiaddr
  compares the encodings.
\<close>

datatype multiaddr = Multiaddr (Bytes: string)

definition Equal :: "multiaddr \<Rightarrow> multiaddr \<Rightarrow> bool" where
  "Equal m m2 = (Bytes m = Bytes m2)"

text \<open>A non-nil \<open>ipfsaddr.IPFSAddr\<close>, as the values of its methods \<open>ID()\<close> and \<open>Multiaddr()\<close>.\<close>

record ipfsaddr =
  ID :: string
  addr_Multiaddr :: multiaddr

datatype ttl = TempAddrTTL

text \<open>A \<open>p2p.Listener\<close>, as the values of its three accessor methods.\<close>

record listener =
  Protocol :: string
  ListenAddress :: multiaddr
  TargetAddress :: multiaddr

text \<open>The fields of a \<open>p2p.Stream\<close> that the commands read.\<close>

record stream =
  stream_Protocol :: string
  OriginAddr :: multiaddr
  TargetAddr :: multiaddr

text \<open>
  The state shared through the node: \<open>n.P2P.Listeners.Listeners\<close>, the Go map
  \<open>n.P2P.Streams.Streams\<close> (its keys are \<open>uint64\<close> handles: the commands pass them to
  \<open>strconv.FormatUint\<close> and compare them with a \<open>uint64\<close>), and the addresses recorded
  in \<open>n.Peerstore\<close>.

  Modelled from the spec: the declaration of the listener registry is in package p2p,
  outside this file; section 3 of the specification calls it an insertion-ordered
  mapping, so it is the list of registered listeners in insertion order.
\<close>

record world =
  Listeners :: "listener list"
  Streams :: "64 word \<rightharpoonup> stream"
  Peerstore :: "(string \<times> multiaddr \<times> ttl) list"

record config =
  Libp2pStreamMounting :: bool

record ipfs_node =
  Repo_Config :: "error + config"
  OnlineMode :: bool

text \<open>
  A \<open>cmds.Request\<close>, as what its accessors return: \<open>req.InvocContext().GetNode()\<close>,
  \<open>req.Arguments()\<close>, and for an option name the triple (value, found, error) of
  \<open>req.Option(name).Bool()\<close> and of \<open>req.Option(name).String()\<close>.
\<close>

record request =
  GetNode :: "error + ipfs_node"
  Arguments :: "string list"
  Option_Bool :: "string \<Rightarrow> bool \<times> bool \<times> error option"
  Option_String :: "string \<Rightarrow> string \<times> bool \<times> error option"

text \<open>
  What the commands use and this file does not declare: the variable \<open>ErrNotOnline\<close> of
  package commands, the parsers and printers of go-multiaddr, go-ipfs-addr and strconv,
  and the methods \<open>ForwardLocal\<close> and \<open>ForwardRemote\<close> of \<open>p2p.P2P\<close>. They are
  parameters of the model. \<open>ParseString\<close> returns Go's pair of an address (nil is
  \<open>None\<close>) and an error (nil is \<open>None\<close>).
\<close>

record env =
  ErrNotOnline :: error
  NewMultiaddr :: "string \<Rightarrow> error + multiaddr"
  ma_String :: "multiaddr \<Rightarrow> string"
  ParseString :: "string \<Rightarrow> ipfsaddr option \<times> error option"
  ParseUint :: "string \<Rightarrow> error + 64 word"
  FormatUint :: "64 word \<Rightarrow> string"
  P2P_ForwardLocal :: "string \<Rightarrow> string \<Rightarrow> multiaddr \<Rightarrow> world \<Rightarrow> error option \<times> world"
  P2P_ForwardRemote :: "string \<Rightarrow> multiaddr \<Rightarrow> world \<Rightarrow> error option \<times> world"

datatype P2PListenerInfoOutput =
  P2PListenerInfoOutput (li_Protocol: string) (li_ListenAddress: string) (li_TargetAddress: string)

datatype P2PStreamInfoOutput =
  P2PStreamInfoOutput (HandlerID: string) (si_Protocol: string)
    (si_OriginAddress: string) (si_TargetAddress: string)

text \<open>What \<open>res.SetOutput\<close> receives: nil, a \<open>P2PLsOutput\<close>, a \<open>P2PStreamsOutput\<close> or an int.\<close>

datatype cmd_output =
  OutNil
  | P2PLsOutput "P2PListenerInfoOutput list"
  | P2PStreamsOutput "P2PStreamInfoOutput list"
  | OutInt nat

text \<open>
  A response is \<open>Inl err\<close> when \<open>res.SetError\<close> was called and \<open>Inr out\<close> otherwise; a
  run that panics is \<open>Inl\<close> of the panic.
\<close>

type_synonym result = "(error + cmd_output) \<times> world"
type_synonym outcome = "panic + result"

subsection \<open>Helpers of the standard library\<close>

definition P2PProtoPrefix :: string where
  "P2PProtoPrefix = ''/x/''"

definition HasPrefix :: "string \<Rightarrow> string \<Rightarrow> bool" where
  "HasPrefix s pre = (length s \<ge> length pre \<and> take (length pre) s = pre)"

fun Join :: "string list \<Rightarrow> string \<Rightarrow> string" where
  "Join [] sep = []"
| "Join [a] sep = a"
| "Join (a # b # rest) sep = a @ sep @ Join (b # rest) sep"

text \<open>
  The peerstore is the log of the addresses recorded in it: \<open>ps.AddAddr(id, addr, ttl)\<close>
  adds one entry.
\<close>

definition AddAddr :: "string \<Rightarrow> multiaddr \<Rightarrow> ttl \<Rightarrow> world \<Rightarrow> world" where
  "AddAddr p addr t w = w\<lparr>Peerstore := Peerstore w @ [(p, addr, t)]\<rparr>"

subsection \<open>Methods of package p2p\<close>

text \<open>
  Modelled from the spec: \<open>Listener.Close\<close> is in package p2p, outside this file.
  Section 4.1: closing stops the listener and must not disturb unrelated listeners;
  section 3: a listener is destroyed on explicit close, and the registry lists the
  non-closed listeners; a second close reports "already closed". So closing a
  registered listener removes that one entry from the registry and returns no error.
\<close>

definition Listener_Close :: "listener \<Rightarrow> world \<Rightarrow> error option \<times> world" where
  "Listener_Close l w =
     (if l \<in> set (Listeners w) then (None, w\<lparr>Listeners := remove1 l (Listeners w)\<rparr>)
      else (Some (ErrorString ''already closed''), w))"

text \<open>
  Modelled from the spec: \<open>Stream.Reset\<close> is in package p2p, outside this file.
  Sections 3 and 4.2: an administratively reset stream is destroyed, and its removal
  from the registry is synchronous with the termination. The stream is named by the
  handle it is registered under.
\<close>

definition Stream_Reset :: "64 word \<Rightarrow> world \<Rightarrow> world" where
  "Stream_Reset h w = w\<lparr>Streams := (Streams w)(h := None)\<rparr>"

subsection \<open>p2pGetNode\<close>

definition p2pGetNode :: "env \<Rightarrow> request \<Rightarrow> error + ipfs_node" where
  "p2pGetNode e req =
     (case GetNode req of
        Inl err \<Rightarrow> Inl err
      | Inr n \<Rightarrow>
          (case Repo_Config n of
             Inl err \<Rightarrow> Inl err
           | Inr config \<Rightarrow>
               if \<not> Libp2pStreamMounting config
               then Inl (ErrorString ''libp2p stream mounting not enabled'')
               else if \<not> OnlineMode n then Inl (ErrNotOnline e)
               else Inr n))"

subsection \<open>forward and listen\<close>

text \<open>
  \<open>forwardLocal\<close>: the address is recorded only when \<open>addr\<close> is not nil; \<open>addr.ID()\<close> in
  the call of \<open>p.ForwardLocal\<close> is evaluated in every case, and panics on nil.
\<close>

definition forwardLocal ::
  "env \<Rightarrow> string \<Rightarrow> multiaddr \<Rightarrow> ipfsaddr option \<Rightarrow> world \<Rightarrow> panic + (error option \<times> world)" where
  "forwardLocal e proto bindAddr addr w =
     (let w1 = (case addr of
                  Some a \<Rightarrow> AddAddr (ID a) (addr_Multiaddr a) TempAddrTTL w
                | None \<Rightarrow> w)
      in (case addr of
            None \<Rightarrow> Inl NilDereference
          | Some a \<Rightarrow> Inr (P2P_ForwardLocal e (ID a) proto bindAddr w1)))"

definition forwardRemote ::
  "env \<Rightarrow> string \<Rightarrow> multiaddr \<Rightarrow> world \<Rightarrow> error option \<times> world" where
  "forwardRemote e proto target w = P2P_ForwardRemote e proto target w"

definition namespace_error :: error where
  "namespace_error =
     ErrorString (''protocol name must be within '' @ [CHR 0x27] @ P2PProtoPrefix
                  @ [CHR 0x27] @ '' namespace'')"

definition p2pForwardCmd_Run :: "env \<Rightarrow> request \<Rightarrow> world \<Rightarrow> outcome" where
  "p2pForwardCmd_Run e req w =
     (case p2pGetNode e req of
        Inl err \<Rightarrow> Inr (Inl err, w)
      | Inr n \<Rightarrow>
          if length (Arguments req) < 3 then Inl IndexOutOfRange
          else
            let protoOpt = Arguments req ! 0;
                listenOpt = Arguments req ! 1;
                targetOpt = Arguments req ! 2;
                proto = protoOpt
            in (case NewMultiaddr e listenOpt of
                 Inl err \<Rightarrow> Inr (Inl err, w)
               | Inr listen \<Rightarrow>
                   (case ParseString e targetOpt of
                      (target, Some err) \<Rightarrow> Inr (Inl err, w)
                    | (target, None) \<Rightarrow>
                        (case Option_Bool req ''allow-custom-protocol'' of
                           (allowCustom, found, Some err) \<Rightarrow> Inr (Inl err, w)
                         | (allowCustom, found, None) \<Rightarrow>
                             if \<not> allowCustom \<and> \<not> HasPrefix proto P2PProtoPrefix
                             then Inr (Inl namespace_error, w)
                             else
                               (case forwardLocal e proto listen target w of
                                  Inl pnc \<Rightarrow> Inl pnc
                                | Inr (Some err, w') \<Rightarrow> Inr (Inl err, w')
                                | Inr (None, w') \<Rightarrow> Inr (Inr OutNil, w'))))))"

definition p2pListenCmd_Run :: "env \<Rightarrow> request \<Rightarrow> world \<Rightarrow> outcome" where
  "p2pListenCmd_Run e req w =
     (case p2pGetNode e req of
        Inl err \<Rightarrow> Inr (Inl err, w)
      | Inr n \<Rightarrow>
          if length (Arguments req) < 2 then Inl IndexOutOfRange
          else
            let protoOpt = Arguments req ! 0;
                targetOpt = Arguments req ! 1;
                proto = protoOpt
            in (case NewMultiaddr e targetOpt of
                 Inl err \<Rightarrow> Inr (Inl err, w)
               | Inr target \<Rightarrow>
                   (case Option_Bool req ''allow-custom-protocol'' of
                      (allowCustom, found, Some err) \<Rightarrow> Inr (Inl err, w)
                    | (allowCustom, found, None) \<Rightarrow>
                        if \<not> allowCustom \<and> \<not> HasPrefix proto P2PProtoPrefix
                        then Inr (Inl namespace_error, w)
                        else
                          (case forwardRemote e proto target w of
                             (Some err, w') \<Rightarrow> Inr (Inl err, w')
                           | (None, w') \<Rightarrow> Inr (Inr OutNil, w')))))"

subsection \<open>ls\<close>

fun p2pLs_loop ::
  "env \<Rightarrow> listener list \<Rightarrow> P2PListenerInfoOutput list \<Rightarrow> P2PListenerInfoOutput list" where
  "p2pLs_loop e [] out = out"
| "p2pLs_loop e (l # rest) out =
     p2pLs_loop e rest
       (out @ [P2PListenerInfoOutput (Protocol l) (ma_String e (ListenAddress l))
                 (ma_String e (TargetAddress l))])"

definition p2pLsCmd_Run :: "env \<Rightarrow> request \<Rightarrow> world \<Rightarrow> outcome" where
  "p2pLsCmd_Run e req w =
     (case p2pGetNode e req of
        Inl err \<Rightarrow> Inr (Inl err, w)
      | Inr n \<Rightarrow> Inr (Inr (P2PLsOutput (p2pLs_loop e (Listeners w) [])), w))"

subsection \<open>close\<close>

text \<open>The closure \<open>match\<close> of \<open>p2pCloseCmd\<close>, with the variables it captures as arguments.\<close>

definition match ::
  "bool \<Rightarrow> bool \<Rightarrow> bool \<Rightarrow> bool \<Rightarrow> string \<Rightarrow> multiaddr \<Rightarrow> multiaddr \<Rightarrow> listener \<Rightarrow> bool" where
  "match closeAll p l t proto listen target listener =
     (if closeAll then True
      else if p \<and> proto \<noteq> Protocol listener then False
      else if l \<and> \<not> Equal listen (ListenAddress listener) then False
      else if t \<and> \<not> Equal target (TargetAddress listener) then False
      else True)"

text \<open>The loop that collects \<open>todo\<close> under the registry lock.\<close>

fun todo_loop :: "(listener \<Rightarrow> bool) \<Rightarrow> listener list \<Rightarrow> listener list \<Rightarrow> listener list" where
  "todo_loop m [] todo = todo"
| "todo_loop m (l # rest) todo =
     (if \<not> m l then todo_loop m rest todo else todo_loop m rest (todo @ [l]))"

text \<open>The loop that closes every listener of \<open>todo\<close> and collects the error texts.\<close>

fun close_loop :: "listener list \<Rightarrow> world \<Rightarrow> string list \<Rightarrow> string list \<times> world" where
  "close_loop [] w errs = (errs, w)"
| "close_loop (l # rest) w errs =
     (case Listener_Close l w of
        (Some err, w') \<Rightarrow> close_loop rest w' (errs @ [Error err])
      | (None, w') \<Rightarrow> close_loop rest w' errs)"

definition p2pCloseCmd_Run :: "env \<Rightarrow> request \<Rightarrow> world \<Rightarrow> outcome" where
  "p2pCloseCmd_Run e req w =
     (case p2pGetNode e req of
        Inl err \<Rightarrow> Inr (Inl err, w)
      | Inr n \<Rightarrow>
          let closeAll = fst (Option_Bool req ''all'');
              protoOpt = fst (Option_String req ''protocol'');
              p = fst (snd (Option_String req ''protocol''));
              listenOpt = fst (Option_String req ''listen-address'');
              l = fst (snd (Option_String req ''listen-address''));
              targetOpt = fst (Option_String req ''target-address'');
              t = fst (snd (Option_String req ''target-address''));
              proto = protoOpt
          in (case NewMultiaddr e listenOpt of
                Inl err \<Rightarrow> Inr (Inl err, w)
              | Inr listen \<Rightarrow>
                  (case NewMultiaddr e targetOpt of
                     Inl err \<Rightarrow> Inr (Inl err, w)
                   | Inr target \<Rightarrow>
                       if \<not> (closeAll \<or> p \<or> l \<or> t)
                       then Inr (Inl (ErrorString ''no matching options given''), w)
                       else if closeAll \<and> (p \<or> l \<or> t)
                       then Inr (Inl (ErrorString
                                  ''can't combine --all with other matching options''), w)
                       else
                         let todo = todo_loop (match closeAll p l t proto listen target)
                                      (Listeners w) [];
                             (errs, w') = close_loop todo w []
                         in if length errs \<noteq> 0
                            then Inr (Inl (ErrorString (''errors when closing streams: ''
                                             @ Join errs ''; '')), w')
                            else Inr (Inr (OutInt (length todo)), w'))))"

subsection \<open>stream ls and stream close\<close>

text \<open>
  A \<open>range\<close> over a Go map yields every entry once, in an order the language leaves
  unspecified and that may differ from one loop to the next. \<open>range_entries m ks\<close> are
  the entries the loop yields when it visits the keys in the order \<open>ks\<close>, and
  \<open>iteration_order m ks\<close> says that \<open>ks\<close> is an order the loop can take: every key of
  the map once. The two stream commands take the order as an argument.
\<close>

definition range_entries :: "('k \<rightharpoonup> 'v) \<Rightarrow> 'k list \<Rightarrow> ('k \<times> 'v) list" where
  "range_entries m ks = List.map_filter (\<lambda>k. map_option (Pair k) (m k)) ks"

definition iteration_order :: "('k \<rightharpoonup> 'v) \<Rightarrow> 'k list \<Rightarrow> bool" where
  "iteration_order m ks \<longleftrightarrow> distinct ks \<and> set ks = dom m"

fun p2pStreamLs_loop ::
  "env \<Rightarrow> (64 word \<times> stream) list \<Rightarrow> P2PStreamInfoOutput list \<Rightarrow> P2PStreamInfoOutput list" where
  "p2pStreamLs_loop e [] out = out"
| "p2pStreamLs_loop e ((h, s) # rest) out =
     p2pStreamLs_loop e rest
       (out @ [P2PStreamInfoOutput (FormatUint e h) (stream_Protocol s)
                 (ma_String e (OriginAddr s)) (ma_String e (TargetAddr s))])"

definition p2pStreamLsCmd_Run :: "env \<Rightarrow> request \<Rightarrow> world \<Rightarrow> 64 word list \<Rightarrow> outcome" where
  "p2pStreamLsCmd_Run e req w order =
     (case p2pGetNode e req of
        Inl err \<Rightarrow> Inr (Inl err, w)
      | Inr n \<Rightarrow>
          Inr (Inr (P2PStreamsOutput
                      (p2pStreamLs_loop e (range_entries (Streams w) order) [])), w))"

text \<open>
  The loop of \<open>p2pStreamCloseCmd\<close> over the entries the \<open>range\<close> yields: the handles of
  the streams on which it calls \<open>Reset\<close>, in the order of the calls.
\<close>

fun stream_close_loop :: "bool \<Rightarrow> 64 word \<Rightarrow> (64 word \<times> stream) list \<Rightarrow> 64 word list" where
  "stream_close_loop closeAll handlerID [] = []"
| "stream_close_loop closeAll handlerID ((h, s) # rest) =
     (if \<not> closeAll \<and> handlerID \<noteq> h then stream_close_loop closeAll handlerID rest
      else h # (if \<not> closeAll then [] else stream_close_loop closeAll handlerID rest))"

text \<open>
  \<open>handlerID\<close> is a zero-initialised \<open>uint64\<close>, assigned only without \<open>--all\<close>. A
  \<open>Reset\<close> removes the entry of the stream it is called on and no other, so every
  call finds the entries not yet visited still in place, and the loop visits the entries
  of the map as it was when the loop began.
\<close>

definition p2pStreamCloseCmd_Run :: "env \<Rightarrow> request \<Rightarrow> world \<Rightarrow> 64 word list \<Rightarrow> outcome" where
  "p2pStreamCloseCmd_Run e req w order =
     (case p2pGetNode e req of
        Inl err \<Rightarrow> Inr (Inl err, w)
      | Inr n \<Rightarrow>
          let closeAll = fst (Option_Bool req ''all'')
          in (case (if \<not> closeAll
                    then (if length (Arguments req) = 0
                          then Inl (ErrorString ''no id specified'')
                          else ParseUint e (Arguments req ! 0))
                    else Inr 0) of
                Inl err \<Rightarrow> Inr (Inl err, w)
              | Inr handlerID \<Rightarrow>
                  Inr (Inr OutNil,
                       fold Stream_Reset
                         (stream_close_loop closeAll handlerID
                            (range_entries (Streams w) order)) w)))"

subsection \<open>Conditions in the specification's words\<close>

text \<open>
  Every criterion the caller specified equals the corresponding field of the listener;
  a field that was not specified is a wildcard.
\<close>

definition every_specified_criterion_equal ::
  "bool \<Rightarrow> bool \<Rightarrow> bool \<Rightarrow> string \<Rightarrow> multiaddr \<Rightarrow> multiaddr \<Rightarrow> listener \<Rightarrow> bool" where
  "every_specified_criterion_equal p l t proto listen target x \<longleftrightarrow>
     (p \<longrightarrow> Protocol x = proto) \<and> (l \<longrightarrow> ListenAddress x = listen)
     \<and> (t \<longrightarrow> TargetAddress x = target)"

text \<open>The entry of a listing for one listener and for one stream.\<close>

definition listener_info :: "env \<Rightarrow> listener \<Rightarrow> P2PListenerInfoOutput" where
  "listener_info e l =
     P2PListenerInfoOutput (Protocol l) (ma_String e (ListenAddress l))
       (ma_String e (TargetAddress l))"

definition stream_info :: "env \<Rightarrow> 64 word \<times> stream \<Rightarrow> P2PStreamInfoOutput" where
  "stream_info e hs =
     P2PStreamInfoOutput (FormatUint e (fst hs)) (stream_Protocol (snd hs))
       (ma_String e (OriginAddr (snd hs))) (ma_String e (TargetAddr (snd hs)))"

text \<open>
  The contract of go-ipfs-addr that the call site of \<open>forwardLocal\<close> relies on:
  \<open>ParseString\<close> returns a nil address only together with an error.
\<close>

definition ParseString_contract :: "env \<Rightarrow> bool" where
  "ParseString_contract e \<longleftrightarrow> (\<forall>s. snd (ParseString e s) = None \<longrightarrow> fst (ParseString e s) \<noteq> None)"

subsection \<open>A concrete environment and state for evaluating the commands\<close>

function decimal :: "nat \<Rightarrow> string" where
  "decimal n = (if n < 10 then [''0123456789'' ! n]
                else decimal (n div 10) @ [''0123456789'' ! (n mod 10)])"
  by pat_completeness auto
termination
  by (relation "measure id") auto

declare decimal.simps [simp del]

definition from_decimal :: "string \<Rightarrow> nat" where
  "from_decimal s = foldl (\<lambda>a c. 10 * a + (of_char c - 48)) 0 s"

definition example_ParseUint :: "string \<Rightarrow> error + 64 word" where
  "example_ParseUint s =
     (if s = [] then Inl (ErrorString ''invalid syntax'')
      else if \<not> list_all (\<lambda>c. c \<in> set ''0123456789'') s then Inl (ErrorString ''invalid syntax'')
      else if from_decimal s \<ge> 2 ^ 64 then Inl (ErrorString ''value out of range'')
      else Inr (word_of_nat (from_decimal s)))"

definition example_env :: env where
  "example_env =
     \<lparr> ErrNotOnline = ErrorString ''this command must be run in online mode'',
       NewMultiaddr = (\<lambda>s. if s = [] then Inr (Multiaddr [])
                            else if hd s = CHR ''/'' then Inr (Multiaddr s)
                            else Inl (ErrorString ''invalid multiaddr, must begin with /'')),
       ma_String = Bytes,
       ParseString = (\<lambda>s. if HasPrefix s ''/ipfs/''
                           then (Some \<lparr>ID = drop 6 s, addr_Multiaddr = Multiaddr s\<rparr>, None)
                           else (None, Some (ErrorString ''invalid ipfs address''))),
       ParseUint = example_ParseUint,
       FormatUint = (\<lambda>h. decimal (unat h)),
       P2P_ForwardLocal = (\<lambda>peer proto bindAddr w.
          (None, w\<lparr>Listeners := Listeners w @
                     [\<lparr>Protocol = proto, ListenAddress = bindAddr,
                       TargetAddress = Multiaddr (''/ipfs/'' @ peer)\<rparr>]\<rparr>)),
       P2P_ForwardRemote = (\<lambda>proto target w.
          (None, w\<lparr>Listeners := Listeners w @
                     [\<lparr>Protocol = proto, ListenAddress = Multiaddr ''/ipfs/self'',
                       TargetAddress = target\<rparr>]\<rparr>)) \<rparr>"

definition listener1 :: listener where
  "listener1 = \<lparr>Protocol = ''/x/p1'', ListenAddress = Multiaddr ''/ip4/127.0.0.1/tcp/4001'',
                 TargetAddress = Multiaddr ''/ipfs/QmPeer''\<rparr>"

definition listener2 :: listener where
  "listener2 = \<lparr>Protocol = ''/x/p2'', ListenAddress = Multiaddr ''/ip4/127.0.0.1/tcp/4001'',
                 TargetAddress = Multiaddr ''/ipfs/QmPeer''\<rparr>"

definition listener3 :: listener where
  "listener3 = \<lparr>Protocol = ''/x/p1'', ListenAddress = Multiaddr ''/ipfs/self'',
                 TargetAddress = Multiaddr ''/ip4/127.0.0.1/tcp/80''\<rparr>"

definition stream1 :: stream where
  "stream1 = \<lparr>stream_Protocol = ''/x/p1'', OriginAddr = Multiaddr ''/ip4/127.0.0.1/tcp/5001'',
               TargetAddr = Multiaddr ''/ipfs/QmPeer''\<rparr>"

definition stream2 :: stream where
  "stream2 = \<lparr>stream_Protocol = ''/x/p2'', OriginAddr = Multiaddr ''/ipfs/QmOther'',
               TargetAddr = Multiaddr ''/ip4/127.0.0.1/tcp/80''\<rparr>"

definition example_world :: world where
  "example_world =
     \<lparr>Listeners = [listener1, listener2, listener3],
      Streams = [1 \<mapsto> stream1, 2 \<mapsto> stream2],
      Peerstore = []\<rparr>"

definition example_node :: ipfs_node where
  "example_node = \<lparr>Repo_Config = Inr \<lparr>Libp2pStreamMounting = True\<rparr>, OnlineMode = True\<rparr>"

text \<open>
  A request on \<open>example_node\<close> with the arguments \<open>args\<close>, the boolean options \<open>bs\<close> and
  the string options \<open>ss\<close>; an option that was not given reads as the zero value, not
  found.
\<close>

definition example_request ::
  "string list \<Rightarrow> (string \<times> bool) list \<Rightarrow> (string \<times> string) list \<Rightarrow> request" where
  "example_request args bs ss =
     \<lparr>GetNode = Inr example_node,
      Arguments = args,
      Option_Bool = (\<lambda>name. case map_of bs name of
                               None \<Rightarrow> (False, False, None)
                             | Some b \<Rightarrow> (b, True, None)),
      Option_String = (\<lambda>name. case map_of ss name of
                                 None \<Rightarrow> ([], False, None)
                               | Some v \<Rightarrow> (v, True, None))\<rparr>"

section \<open>Properties of the loops\<close>

lemma p2pLs_loop_eq: "p2pLs_loop e xs out = out @ map (listener_info e) xs"
  by (induction xs arbitrary: out) (simp_all add: listener_info_def)

lemma p2pStreamLs_loop_eq: "p2pStreamLs_loop e kvs out = out @ map (stream_info e) kvs"
  by (induction kvs arbitrary: out) (auto simp: stream_info_def)

lemma todo_loop_eq: "todo_loop m xs todo = todo @ filter m xs"
  by (induction xs arbitrary: todo) simp_all

lemma match_specified:
  "match False p l t proto listen target x = every_specified_criterion_equal p l t proto listen target x"
  by (cases "ListenAddress x"; cases "TargetAddress x"; cases listen; cases target)
     (auto simp: match_def every_specified_criterion_equal_def Equal_def)

lemma match_all: "match True p l t proto listen target x"
  by (simp add: match_def)

lemma close_loop_filter:
  "\<forall>y \<in> set ys. \<not> P y \<Longrightarrow>
   close_loop (filter P xs) (w\<lparr>Listeners := ys @ xs\<rparr>) errs
     = (errs, w\<lparr>Listeners := ys @ filter (\<lambda>x. \<not> P x) xs\<rparr>)"
proof (induction xs arbitrary: ys)
  case Nil
  then show ?case by simp
next
  case (Cons x xs)
  show ?case
  proof (cases "P x")
    case True
    with Cons.prems have nin: "x \<notin> set ys" by auto
    then have "remove1 x (ys @ x # xs) = ys @ xs"
      by (simp add: remove1_append)
    with True Cons.IH[OF Cons.prems] show ?thesis
      by (simp add: Listener_Close_def)
  next
    case False
    with Cons.prems have "\<forall>y \<in> set (ys @ [x]). \<not> P y" by auto
    from Cons.IH[OF this] False show ?thesis by simp
  qed
qed

lemma close_loop_registry:
  "close_loop (filter P (Listeners w)) w [] = ([], w\<lparr>Listeners := filter (\<lambda>x. \<not> P x) (Listeners w)\<rparr>)"
  using close_loop_filter[of "[]" P "Listeners w" w "[]"] by simp

lemma stream_close_loop_one:
  "stream_close_loop False H kvs = (if H \<in> fst ` set kvs then [H] else [])"
proof (induction kvs)
  case Nil
  show ?case by simp
next
  case (Cons kv kvs)
  obtain h s where kv: "kv = (h, s)" by (cases kv)
  show ?case
  proof (cases "H = h")
    case True
    then show ?thesis by (simp add: kv)
  next
    case False
    with Cons.IH show ?thesis by (simp add: kv)
  qed
qed

lemma stream_close_loop_all: "stream_close_loop True H kvs = map fst kvs"
  by (induction kvs) auto

section \<open>close: selection by criteria\<close>

text \<open>
  C1. A close call without \<open>--all\<close> and with at least one of the protocol,
  listen-address and target-address criteria, whose node check passes and whose two
  address options parse: \<open>Close\<close> is called on exactly the registered listeners for which
  every specified criterion equals the listener's field (an unspecified field is a
  wildcard); the call returns their number, and the registry afterwards holds exactly
  the listeners that fail a specified criterion.
\<close>

theorem close_selected:
  assumes gate: "p2pGetNode e req = Inr n"
    and all: "fst (Option_Bool req ''all'') = False"
    and po: "Option_String req ''protocol'' = (proto, p, perr)"
    and lo: "Option_String req ''listen-address'' = (listenOpt, l, lerr)"
    and to: "Option_String req ''target-address'' = (targetOpt, t, terr)"
    and lp: "NewMultiaddr e listenOpt = Inr listen"
    and tp: "NewMultiaddr e targetOpt = Inr target"
    and some: "p \<or> l \<or> t"
  shows "todo_loop (match (fst (Option_Bool req ''all'')) p l t proto listen target) (Listeners w) []
           = filter (every_specified_criterion_equal p l t proto listen target) (Listeners w)
         \<and> p2pCloseCmd_Run e req w =
             Inr (Inr (OutInt (length (filter (every_specified_criterion_equal p l t proto listen target)
                                        (Listeners w)))),
                  w\<lparr>Listeners := filter (\<lambda>x. \<not> every_specified_criterion_equal p l t proto listen target x)
                                    (Listeners w)\<rparr>)"
proof -
  let ?sel = "every_specified_criterion_equal p l t proto listen target"
  have m: "match False p l t proto listen target = ?sel"
    by (rule ext) (rule match_specified)
  have todo: "todo_loop (match False p l t proto listen target) (Listeners w) [] = filter ?sel (Listeners w)"
    by (simp add: todo_loop_eq m)
  have run: "p2pCloseCmd_Run e req w =
      (let todo = filter ?sel (Listeners w); (errs, w') = close_loop todo w []
       in if length errs \<noteq> 0
          then Inr (Inl (ErrorString (''errors when closing streams: '' @ Join errs ''; '')), w')
          else Inr (Inr (OutInt (length todo)), w'))"
  proof -
    from some have ne: "\<not> (\<not> p \<and> \<not> l \<and> \<not> t)" by blast
    show ?thesis
      by (simp add: p2pCloseCmd_Run_def gate all po lo to lp tp todo Let_def ne)
  qed
  show ?thesis
    by (simp add: all todo run close_loop_registry Let_def)
qed

theorem close_selected_witness:
  "p2pCloseCmd_Run example_env (example_request [] [] [(''protocol'', ''/x/p1'')]) example_world
     = Inr (Inr (OutInt 2), example_world\<lparr>Listeners := [listener2]\<rparr>)"
  using close_selected [of example_env "example_request [] [] [(''protocol'', ''/x/p1'')]" example_node
      "''/x/p1''" True None "[]" False None "[]" False None "Multiaddr []" "Multiaddr []" example_world]
  by (simp add: p2pGetNode_def example_request_def example_node_def example_env_def
        example_world_def listener1_def listener2_def listener3_def
        every_specified_criterion_equal_def)

section \<open>close: all listeners\<close>

lemma todo_loop_all:
  "todo_loop (match True p l t proto listen target) xs [] = xs"
  by (simp add: todo_loop_eq match_def)

lemma close_loop_every:
  "close_loop (Listeners w) w [] = ([], w\<lparr>Listeners := []\<rparr>)"
  using close_loop_registry [of "\<lambda>x. True" w] by simp

text \<open>
  C2. A close call with \<open>--all\<close> and no other criterion, whose node check passes and
  whose two (absent) address options parse: \<open>Close\<close> is called on every registered
  listener, the returned count is the number of listeners registered before the call,
  and a following ls returns the empty listing.
\<close>

theorem close_all:
  assumes gate: "p2pGetNode e req = Inr n"
    and all: "fst (Option_Bool req ''all'') = True"
    and po: "Option_String req ''protocol'' = (proto, False, perr)"
    and lo: "Option_String req ''listen-address'' = (listenOpt, False, lerr)"
    and to: "Option_String req ''target-address'' = (targetOpt, False, terr)"
    and lp: "NewMultiaddr e listenOpt = Inr listen"
    and tp: "NewMultiaddr e targetOpt = Inr target"
    and gate': "p2pGetNode e req' = Inr n'"
  shows "todo_loop (match (fst (Option_Bool req ''all'')) False False False proto listen target)
           (Listeners w) [] = Listeners w
         \<and> p2pCloseCmd_Run e req w
             = Inr (Inr (OutInt (length (Listeners w))), w\<lparr>Listeners := []\<rparr>)
         \<and> p2pLsCmd_Run e req' (snd (projr (p2pCloseCmd_Run e req w)))
             = Inr (Inr (P2PLsOutput []), w\<lparr>Listeners := []\<rparr>)"
proof -
  have run: "p2pCloseCmd_Run e req w
               = Inr (Inr (OutInt (length (Listeners w))), w\<lparr>Listeners := []\<rparr>)"
    by (simp add: p2pCloseCmd_Run_def gate all po lo to lp tp todo_loop_all
          close_loop_every Let_def)
  have ls: "p2pLsCmd_Run e req' (w\<lparr>Listeners := []\<rparr>)
              = Inr (Inr (P2PLsOutput []), w\<lparr>Listeners := []\<rparr>)"
    by (simp add: p2pLsCmd_Run_def gate')
  show ?thesis
    by (simp add: all todo_loop_all run ls)
qed

theorem close_all_witness:
  "p2pCloseCmd_Run example_env (example_request [] [(''all'', True)] []) example_world
     = Inr (Inr (OutInt 3), example_world\<lparr>Listeners := []\<rparr>)
   \<and> p2pLsCmd_Run example_env (example_request [] [] [])
        (snd (projr (p2pCloseCmd_Run example_env (example_request [] [(''all'', True)] [])
                       example_world)))
     = Inr (Inr (P2PLsOutput []), example_world\<lparr>Listeners := []\<rparr>)"
proof -
  let ?req = "example_request [] [(''all'', True)] []"
  have gate: "p2pGetNode example_env ?req = Inr example_node"
    and gate': "p2pGetNode example_env (example_request [] [] []) = Inr example_node"
    by (simp_all add: p2pGetNode_def example_request_def example_node_def)
  have opts: "fst (Option_Bool ?req ''all'') = True"
    "Option_String ?req ''protocol'' = ([], False, None)"
    "Option_String ?req ''listen-address'' = ([], False, None)"
    "Option_String ?req ''target-address'' = ([], False, None)"
    by (simp_all add: example_request_def)
  have parse: "NewMultiaddr example_env [] = Inr (Multiaddr [])"
    by (simp add: example_env_def)
  have len: "length (Listeners example_world) = 3"
    by (simp add: example_world_def)
  note r = close_all [OF gate opts parse parse gate', of example_world, unfolded len]
  from r show ?thesis by (rule conjunct2)
qed

section \<open>close: validation of the options\<close>

text \<open>
  C3. A close call without \<open>--all\<close> and with none of the protocol, listen-address and
  target-address criteria reports an error and leaves the state unchanged; when the
  node check passes and the two address options parse, the error is
  "no matching options given".
\<close>

theorem close_no_criteria:
  assumes all: "fst (Option_Bool req ''all'') = False"
    and p: "fst (snd (Option_String req ''protocol'')) = False"
    and l: "fst (snd (Option_String req ''listen-address'')) = False"
    and t: "fst (snd (Option_String req ''target-address'')) = False"
  shows "(\<exists>err. p2pCloseCmd_Run e req w = Inr (Inl err, w))
         \<and> (p2pGetNode e req = Inr n
              \<and> NewMultiaddr e (fst (Option_String req ''listen-address'')) = Inr listen
              \<and> NewMultiaddr e (fst (Option_String req ''target-address'')) = Inr target
            \<longrightarrow> p2pCloseCmd_Run e req w
                  = Inr (Inl (ErrorString ''no matching options given''), w))"
  by (simp add: p2pCloseCmd_Run_def all p l t Let_def split: sum.splits)

theorem close_no_criteria_witness:
  "p2pCloseCmd_Run example_env (example_request [] [] []) example_world
     = Inr (Inl (ErrorString ''no matching options given''), example_world)"
  using close_no_criteria [of "example_request [] [] []" example_env example_world
      example_node "Multiaddr []" "Multiaddr []"]
  by (simp add: p2pGetNode_def example_request_def example_node_def example_env_def)

text \<open>
  C4. A close call that combines \<open>--all\<close> with any of the protocol, listen-address and
  target-address criteria reports an error and leaves the state unchanged; when the
  node check passes and the two address options parse, the error is
  "can't combine --all with other matching options".
\<close>

theorem close_conflicting:
  assumes all: "fst (Option_Bool req ''all'') = True"
    and some: "fst (snd (Option_String req ''protocol''))
               \<or> fst (snd (Option_String req ''listen-address''))
               \<or> fst (snd (Option_String req ''target-address''))"
  shows "(\<exists>err. p2pCloseCmd_Run e req w = Inr (Inl err, w))
         \<and> (p2pGetNode e req = Inr n
              \<and> NewMultiaddr e (fst (Option_String req ''listen-address'')) = Inr listen
              \<and> NewMultiaddr e (fst (Option_String req ''target-address'')) = Inr target
            \<longrightarrow> p2pCloseCmd_Run e req w
                  = Inr (Inl (ErrorString ''can't combine --all with other matching options''), w))"
  using some by (auto simp add: p2pCloseCmd_Run_def all Let_def split: sum.splits)

theorem close_conflicting_witness:
  "p2pCloseCmd_Run example_env
     (example_request [] [(''all'', True)] [(''target-address'', ''/ipfs/QmPeer'')]) example_world
     = Inr (Inl (ErrorString ''can't combine --all with other matching options''), example_world)"
  using close_conflicting [of
      "example_request [] [(''all'', True)] [(''target-address'', ''/ipfs/QmPeer'')]"
      example_env example_world example_node "Multiaddr []" "Multiaddr ''/ipfs/QmPeer''"]
  by (simp add: p2pGetNode_def example_request_def example_node_def example_env_def)

section \<open>forward and listen: the protocol namespace\<close>

lemma namespace_error_text:
  "namespace_error = ErrorString ''protocol name must be within '/x/' namespace''"
  by (simp add: namespace_error_def P2PProtoPrefix_def)

lemma forwardLocal_Some:
  "forwardLocal e proto bindAddr (Some a) w
     = Inr (P2P_ForwardLocal e (ID a) proto bindAddr (AddAddr (ID a) (addr_Multiaddr a) TempAddrTTL w))"
  by (simp add: forwardLocal_def)

lemma forwardLocal_None: "forwardLocal e proto bindAddr None w = Inl NilDereference"
  by (simp add: forwardLocal_def)

lemma forward_rejected:
  assumes "fst (Option_Bool req ''allow-custom-protocol'') = False"
    and "3 \<le> length (Arguments req)"
    and "\<not> HasPrefix (Arguments req ! 0) P2PProtoPrefix"
  shows "\<exists>err. p2pForwardCmd_Run e req w = Inr (Inl err, w)"
proof -
  obtain b f oe where ob: "Option_Bool req ''allow-custom-protocol'' = (b, f, oe)"
    by (cases "Option_Bool req ''allow-custom-protocol''") auto
  with assms(1) have b: "b = False" by simp
  show ?thesis
    using assms(2,3)
    by (cases oe)
       (auto simp add: p2pForwardCmd_Run_def Let_def ob b split: sum.splits prod.splits option.splits)
qed

lemma listen_rejected:
  assumes "fst (Option_Bool req ''allow-custom-protocol'') = False"
    and "2 \<le> length (Arguments req)"
    and "\<not> HasPrefix (Arguments req ! 0) P2PProtoPrefix"
  shows "\<exists>err. p2pListenCmd_Run e req w = Inr (Inl err, w)"
proof -
  obtain b f oe where ob: "Option_Bool req ''allow-custom-protocol'' = (b, f, oe)"
    by (cases "Option_Bool req ''allow-custom-protocol''") auto
  with assms(1) have b: "b = False" by simp
  show ?thesis
    using assms(2,3)
    by (cases oe)
       (auto simp add: p2pListenCmd_Run_def Let_def ob b split: sum.splits prod.splits option.splits)
qed

lemma forward_checked:
  assumes "p2pGetNode e req = Inr n"
    and "Arguments req = proto # listenOpt # targetOpt # rest"
    and "NewMultiaddr e listenOpt = Inr listen"
    and "ParseString e targetOpt = (Some a, None)"
    and "Option_Bool req ''allow-custom-protocol'' = (allowCustom, found, None)"
  shows "p2pForwardCmd_Run e req w =
           (if \<not> allowCustom \<and> \<not> HasPrefix proto P2PProtoPrefix then Inr (Inl namespace_error, w)
            else case P2P_ForwardLocal e (ID a) proto listen
                        (AddAddr (ID a) (addr_Multiaddr a) TempAddrTTL w) of
                   (Some err, w') \<Rightarrow> Inr (Inl err, w')
                 | (None, w') \<Rightarrow> Inr (Inr OutNil, w'))"
  using assms
  by (simp add: p2pForwardCmd_Run_def Let_def forwardLocal_Some split: prod.splits option.splits)

lemma listen_checked:
  assumes "p2pGetNode e req = Inr n"
    and "Arguments req = proto # targetOpt # rest"
    and "NewMultiaddr e targetOpt = Inr target"
    and "Option_Bool req ''allow-custom-protocol'' = (allowCustom, found, None)"
  shows "p2pListenCmd_Run e req w =
           (if \<not> allowCustom \<and> \<not> HasPrefix proto P2PProtoPrefix then Inr (Inl namespace_error, w)
            else case P2P_ForwardRemote e proto target w of
                   (Some err, w') \<Rightarrow> Inr (Inl err, w')
                 | (None, w') \<Rightarrow> Inr (Inr OutNil, w'))"
  using assms
  by (simp add: p2pListenCmd_Run_def Let_def forwardRemote_def split: prod.splits option.splits)

text \<open>
  C5. A forward or listen call whose protocol name does not start with \<open>/x/\<close>, and
  that reaches the check (the node check passes, the arguments are present, the
  addresses and the option parse): without \<open>allow-custom-protocol\<close> it reports
  "protocol name must be within '/x/' namespace" and leaves the state unchanged; with
  the option set the check is skipped and the result is that of \<open>ForwardLocal\<close>
  (after the address is recorded), respectively of \<open>ForwardRemote\<close>. Whether or not the
  call reaches the check, without the option such a call reports an error and leaves
  the state unchanged, so it registers no listener.
\<close>

theorem protocol_namespace:
  "(p2pGetNode e req = Inr n \<and> Arguments req = proto # listenOpt # targetOpt # rest
      \<and> NewMultiaddr e listenOpt = Inr listen \<and> ParseString e targetOpt = (Some a, None)
      \<and> Option_Bool req ''allow-custom-protocol'' = (allowCustom, found, None)
      \<and> \<not> HasPrefix proto P2PProtoPrefix
    \<longrightarrow> p2pForwardCmd_Run e req w =
          (if allowCustom
           then case P2P_ForwardLocal e (ID a) proto listen
                       (AddAddr (ID a) (addr_Multiaddr a) TempAddrTTL w) of
                  (Some err, w') \<Rightarrow> Inr (Inl err, w')
                | (None, w') \<Rightarrow> Inr (Inr OutNil, w')
           else Inr (Inl (ErrorString ''protocol name must be within '/x/' namespace''), w)))
   \<and> (p2pGetNode e lreq = Inr n \<and> Arguments lreq = proto # targetOpt # rest
      \<and> NewMultiaddr e targetOpt = Inr target
      \<and> Option_Bool lreq ''allow-custom-protocol'' = (allowCustom, found, None)
      \<and> \<not> HasPrefix proto P2PProtoPrefix
    \<longrightarrow> p2pListenCmd_Run e lreq w =
          (if allowCustom
           then case P2P_ForwardRemote e proto target w of
                  (Some err, w') \<Rightarrow> Inr (Inl err, w')
                | (None, w') \<Rightarrow> Inr (Inr OutNil, w')
           else Inr (Inl (ErrorString ''protocol name must be within '/x/' namespace''), w)))
   \<and> (fst (Option_Bool req ''allow-custom-protocol'') = False \<and> 3 \<le> length (Arguments req)
      \<and> \<not> HasPrefix (Arguments req ! 0) P2PProtoPrefix
    \<longrightarrow> (\<exists>err. p2pForwardCmd_Run e req w = Inr (Inl err, w)))
   \<and> (fst (Option_Bool lreq ''allow-custom-protocol'') = False \<and> 2 \<le> length (Arguments lreq)
      \<and> \<not> HasPrefix (Arguments lreq ! 0) P2PProtoPrefix
    \<longrightarrow> (\<exists>err. p2pListenCmd_Run e lreq w = Inr (Inl err, w)))"
proof (intro conjI impI)
  assume h: "p2pGetNode e req = Inr n \<and> Arguments req = proto # listenOpt # targetOpt # rest
      \<and> NewMultiaddr e listenOpt = Inr listen \<and> ParseString e targetOpt = (Some a, None)
      \<and> Option_Bool req ''allow-custom-protocol'' = (allowCustom, found, None)
      \<and> \<not> HasPrefix proto P2PProtoPrefix"
  then have "p2pForwardCmd_Run e req w =
           (if \<not> allowCustom \<and> \<not> HasPrefix proto P2PProtoPrefix then Inr (Inl namespace_error, w)
            else case P2P_ForwardLocal e (ID a) proto listen
                        (AddAddr (ID a) (addr_Multiaddr a) TempAddrTTL w) of
                   (Some err, w') \<Rightarrow> Inr (Inl err, w')
                 | (None, w') \<Rightarrow> Inr (Inr OutNil, w'))"
    using forward_checked [of e req n proto listenOpt targetOpt rest listen a allowCustom found w]
    by blast
  with h show "p2pForwardCmd_Run e req w =
          (if allowCustom
           then case P2P_ForwardLocal e (ID a) proto listen
                       (AddAddr (ID a) (addr_Multiaddr a) TempAddrTTL w) of
                  (Some err, w') \<Rightarrow> Inr (Inl err, w')
                | (None, w') \<Rightarrow> Inr (Inr OutNil, w')
           else Inr (Inl (ErrorString ''protocol name must be within '/x/' namespace''), w))"
    by (simp add: namespace_error_text)
next
  assume h: "p2pGetNode e lreq = Inr n \<and> Arguments lreq = proto # targetOpt # rest
      \<and> NewMultiaddr e targetOpt = Inr target
      \<and> Option_Bool lreq ''allow-custom-protocol'' = (allowCustom, found, None)
      \<and> \<not> HasPrefix proto P2PProtoPrefix"
  then have "p2pListenCmd_Run e lreq w =
           (if \<not> allowCustom \<and> \<not> HasPrefix proto P2PProtoPrefix then Inr (Inl namespace_error, w)
            else case P2P_ForwardRemote e proto target w of
                   (Some err, w') \<Rightarrow> Inr (Inl err, w')
                 | (None, w') \<Rightarrow> Inr (Inr OutNil, w'))"
    using listen_checked [of e lreq n proto targetOpt rest target allowCustom found w]
    by blast
  with h show "p2pListenCmd_Run e lreq w =
          (if allowCustom
           then case P2P_ForwardRemote e proto target w of
                  (Some err, w') \<Rightarrow> Inr (Inl err, w')
                | (None, w') \<Rightarrow> Inr (Inr OutNil, w')
           else Inr (Inl (ErrorString ''protocol name must be within '/x/' namespace''), w))"
    by (simp add: namespace_error_text)
next
  assume "fst (Option_Bool req ''allow-custom-protocol'') = False \<and> 3 \<le> length (Arguments req)
      \<and> \<not> HasPrefix (Arguments req ! 0) P2PProtoPrefix"
  then show "\<exists>err. p2pForwardCmd_Run e req w = Inr (Inl err, w)"
    using forward_rejected [of req e w] by blast
next
  assume "fst (Option_Bool lreq ''allow-custom-protocol'') = False \<and> 2 \<le> length (Arguments lreq)
      \<and> \<not> HasPrefix (Arguments lreq ! 0) P2PProtoPrefix"
  then show "\<exists>err. p2pListenCmd_Run e lreq w = Inr (Inl err, w)"
    using listen_rejected [of lreq e w] by blast
qed

lemma example_gate: "p2pGetNode e (example_request args bs ss) = Inr example_node"
  by (simp add: p2pGetNode_def example_request_def example_node_def)

theorem protocol_namespace_witness:
  "p2pForwardCmd_Run example_env
     (example_request [''/y/p'', ''/ip4/127.0.0.1/tcp/4002'', ''/ipfs/QmPeer''] [] []) example_world
     = Inr (Inl (ErrorString ''protocol name must be within '/x/' namespace''), example_world)
   \<and> p2pForwardCmd_Run example_env
     (example_request [''/y/p'', ''/ip4/127.0.0.1/tcp/4002'', ''/ipfs/QmPeer'']
        [(''allow-custom-protocol'', True)] []) example_world
     = Inr (Inr OutNil, example_world
         \<lparr>Listeners := Listeners example_world @
            [\<lparr>Protocol = ''/y/p'', ListenAddress = Multiaddr ''/ip4/127.0.0.1/tcp/4002'',
              TargetAddress = Multiaddr ''/ipfs/QmPeer''\<rparr>],
          Peerstore := [(''QmPeer'', Multiaddr ''/ipfs/QmPeer'', TempAddrTTL)]\<rparr>)
   \<and> p2pListenCmd_Run example_env
     (example_request [''/y/p'', ''/ip4/127.0.0.1/tcp/80''] [] []) example_world
     = Inr (Inl (ErrorString ''protocol name must be within '/x/' namespace''), example_world)
   \<and> p2pListenCmd_Run example_env
     (example_request [''/y/p'', ''/ip4/127.0.0.1/tcp/80'']
        [(''allow-custom-protocol'', True)] []) example_world
     = Inr (Inr OutNil, example_world\<lparr>Listeners := Listeners example_world @
         [\<lparr>Protocol = ''/y/p'', ListenAddress = Multiaddr ''/ipfs/self'',
           TargetAddress = Multiaddr ''/ip4/127.0.0.1/tcp/80''\<rparr>]\<rparr>)"
proof -
  let ?fargs = "[''/y/p'', ''/ip4/127.0.0.1/tcp/4002'', ''/ipfs/QmPeer'']"
  let ?largs = "[''/y/p'', ''/ip4/127.0.0.1/tcp/80'']"
  let ?a = "\<lparr>ID = ''QmPeer'', addr_Multiaddr = Multiaddr ''/ipfs/QmPeer''\<rparr>"
  note rf = protocol_namespace [where e = example_env and n = example_node
      and proto = "''/y/p''" and listenOpt = "''/ip4/127.0.0.1/tcp/4002''"
      and targetOpt = "''/ipfs/QmPeer''" and rest = "[]"
      and listen = "Multiaddr ''/ip4/127.0.0.1/tcp/4002''" and a = ?a and w = example_world]
  note rl = protocol_namespace [where e = example_env and n = example_node
      and proto = "''/y/p''" and targetOpt = "''/ip4/127.0.0.1/tcp/80''" and rest = "[]"
      and target = "Multiaddr ''/ip4/127.0.0.1/tcp/80''" and w = example_world]
  have f: "\<And>bs. Arguments (example_request ?fargs bs []) = ?fargs"
    "\<And>bs. Arguments (example_request ?largs bs []) = ?largs"
    "\<And>args. Option_Bool (example_request args [] []) ''allow-custom-protocol''
              = (False, False, None)"
    "\<And>args. Option_Bool (example_request args [(''allow-custom-protocol'', True)] [])
               ''allow-custom-protocol'' = (True, True, None)"
    by (simp_all add: example_request_def)
  have e: "NewMultiaddr example_env ''/ip4/127.0.0.1/tcp/4002''
             = Inr (Multiaddr ''/ip4/127.0.0.1/tcp/4002'')"
    "ParseString example_env ''/ipfs/QmPeer'' = (Some ?a, None)"
    "NewMultiaddr example_env ''/ip4/127.0.0.1/tcp/80'' = Inr (Multiaddr ''/ip4/127.0.0.1/tcp/80'')"
    "P2P_ForwardRemote example_env ''/y/p'' (Multiaddr ''/ip4/127.0.0.1/tcp/80'') example_world
       = (None, example_world\<lparr>Listeners := Listeners example_world @
         [\<lparr>Protocol = ''/y/p'', ListenAddress = Multiaddr ''/ipfs/self'',
           TargetAddress = Multiaddr ''/ip4/127.0.0.1/tcp/80''\<rparr>]\<rparr>)"
    "P2P_ForwardLocal example_env ''QmPeer'' ''/y/p'' (Multiaddr ''/ip4/127.0.0.1/tcp/4002'')
         (AddAddr ''QmPeer'' (Multiaddr ''/ipfs/QmPeer'') TempAddrTTL example_world)
       = (None, example_world
         \<lparr>Listeners := Listeners example_world @
            [\<lparr>Protocol = ''/y/p'', ListenAddress = Multiaddr ''/ip4/127.0.0.1/tcp/4002'',
              TargetAddress = Multiaddr ''/ipfs/QmPeer''\<rparr>],
          Peerstore := [(''QmPeer'', Multiaddr ''/ipfs/QmPeer'', TempAddrTTL)]\<rparr>)"
    by (simp_all add: example_env_def HasPrefix_def AddAddr_def example_world_def)
  have np: "\<not> HasPrefix ''/y/p'' P2PProtoPrefix"
    by (simp add: HasPrefix_def P2PProtoPrefix_def)
  from rf [where req = "example_request ?fargs [] []" and allowCustom = False and found = False]
    rf [where req = "example_request ?fargs [(''allow-custom-protocol'', True)] []"
        and allowCustom = True and found = True]
    rl [where lreq = "example_request ?largs [] []" and allowCustom = False and found = False]
    rl [where lreq = "example_request ?largs [(''allow-custom-protocol'', True)] []"
        and allowCustom = True and found = True]
  show ?thesis
    by (simp add: example_gate f e np)
qed

section \<open>The node check\<close>

text \<open>
  C9. When the node and its configuration are read and the flag
  \<open>Experimental.Libp2pStreamMounting\<close> is off or the node is not online, \<open>p2pGetNode\<close>
  returns "libp2p stream mounting not enabled" in the first case and \<open>ErrNotOnline\<close>
  in the second (the flag is read first), and each of the six commands reports that
  error and returns the state as it was, whatever the registries hold.
\<close>

theorem gate_closed:
  assumes node: "GetNode req = Inr n"
    and config: "Repo_Config n = Inr c"
    and closed: "\<not> Libp2pStreamMounting c \<or> \<not> OnlineMode n"
  shows "\<exists>err. err = (if \<not> Libp2pStreamMounting c
                     then ErrorString ''libp2p stream mounting not enabled''
                     else ErrNotOnline e)
           \<and> p2pGetNode e req = Inl err
           \<and> p2pForwardCmd_Run e req w = Inr (Inl err, w)
           \<and> p2pListenCmd_Run e req w = Inr (Inl err, w)
           \<and> p2pLsCmd_Run e req w = Inr (Inl err, w)
           \<and> p2pCloseCmd_Run e req w = Inr (Inl err, w)
           \<and> p2pStreamLsCmd_Run e req w order = Inr (Inl err, w)
           \<and> p2pStreamCloseCmd_Run e req w order = Inr (Inl err, w)"
proof -
  have g: "p2pGetNode e req = Inl (if \<not> Libp2pStreamMounting c
                     then ErrorString ''libp2p stream mounting not enabled''
                     else ErrNotOnline e)"
    using closed by (auto simp add: p2pGetNode_def node config)
  show ?thesis
    by (simp add: g p2pForwardCmd_Run_def p2pListenCmd_Run_def p2pLsCmd_Run_def
          p2pCloseCmd_Run_def p2pStreamLsCmd_Run_def p2pStreamCloseCmd_Run_def)
qed

theorem gate_closed_witness:
  "p2pCloseCmd_Run example_env
     ((example_request [] [(''all'', True)] [])
        \<lparr>GetNode := Inr \<lparr>Repo_Config = Inr \<lparr>Libp2pStreamMounting = False\<rparr>, OnlineMode = True\<rparr>\<rparr>)
     example_world
     = Inr (Inl (ErrorString ''libp2p stream mounting not enabled''), example_world)
   \<and> p2pStreamCloseCmd_Run example_env
     ((example_request [] [(''all'', True)] [])
        \<lparr>GetNode := Inr \<lparr>Repo_Config = Inr \<lparr>Libp2pStreamMounting = True\<rparr>, OnlineMode = False\<rparr>\<rparr>)
     example_world [1, 2]
     = Inr (Inl (ErrNotOnline example_env), example_world)"
  using
    gate_closed [of "(example_request [] [(''all'', True)] [])
        \<lparr>GetNode := Inr \<lparr>Repo_Config = Inr \<lparr>Libp2pStreamMounting = False\<rparr>, OnlineMode = True\<rparr>\<rparr>"
      "\<lparr>Repo_Config = Inr \<lparr>Libp2pStreamMounting = False\<rparr>, OnlineMode = True\<rparr>"
      "\<lparr>Libp2pStreamMounting = False\<rparr>" example_env example_world "[1, 2]"]
    gate_closed [of "(example_request [] [(''all'', True)] [])
        \<lparr>GetNode := Inr \<lparr>Repo_Config = Inr \<lparr>Libp2pStreamMounting = True\<rparr>, OnlineMode = False\<rparr>\<rparr>"
      "\<lparr>Repo_Config = Inr \<lparr>Libp2pStreamMounting = True\<rparr>, OnlineMode = False\<rparr>"
      "\<lparr>Libp2pStreamMounting = True\<rparr>" example_env example_world "[1, 2]"]
  by simp

section \<open>forwardLocal and the nil address\<close>

lemma forwardLocal_panic_iff:
  "forwardLocal e proto bindAddr addr w = Inl pnc \<longleftrightarrow> addr = None \<and> pnc = NilDereference"
  by (cases addr) (auto simp add: forwardLocal_def)

lemma forward_parse_error:
  assumes "p2pGetNode e req = Inr n"
    and "3 \<le> length (Arguments req)"
    and "NewMultiaddr e (Arguments req ! 1) = Inr listen"
    and "ParseString e (Arguments req ! 2) = (addr, Some err)"
  shows "p2pForwardCmd_Run e req w = Inr (Inl err, w)"
  using assms by (simp add: p2pForwardCmd_Run_def Let_def)

lemma forward_no_nil:
  assumes "ParseString_contract e"
  shows "p2pForwardCmd_Run e req w \<noteq> Inl NilDereference"
proof -
  have c: "\<And>s. ParseString e s \<noteq> (None, None)"
  proof
    fix s assume "ParseString e s = (None, None)"
    then have "snd (ParseString e s) = None" "fst (ParseString e s) = None" by simp_all
    with assms show False unfolding ParseString_contract_def by blast
  qed
  show ?thesis
    using c [of "Arguments req ! 2"]
    by (auto simp add: p2pForwardCmd_Run_def Let_def forwardLocal_def
          split: sum.splits prod.splits option.splits)
qed

text \<open>
  C10. \<open>forwardLocal\<close> dereferences a nil pointer exactly when \<open>addr\<close> is nil: the nil
  check guards only the recording of the address, and with an address that is not nil
  the address is recorded and \<open>ForwardLocal\<close> is called. At its call site in
  \<open>p2pForwardCmd\<close> an error of \<open>ParseString\<close> is reported before \<open>forwardLocal\<close> is
  called, and when \<open>ParseString\<close> returns a nil address only together with an error the
  command never dereferences nil.
\<close>

theorem forwardLocal_nil:
  "(forwardLocal e proto bindAddr addr w = Inl NilDereference \<longleftrightarrow> addr = None)
   \<and> forwardLocal e proto bindAddr (Some a) w
       = Inr (P2P_ForwardLocal e (ID a) proto bindAddr
                (AddAddr (ID a) (addr_Multiaddr a) TempAddrTTL w))
   \<and> (p2pGetNode e req = Inr n \<and> 3 \<le> length (Arguments req)
        \<and> NewMultiaddr e (Arguments req ! 1) = Inr listen
        \<and> ParseString e (Arguments req ! 2) = (addr, Some err)
      \<longrightarrow> p2pForwardCmd_Run e req w = Inr (Inl err, w))
   \<and> (ParseString_contract e \<longrightarrow> p2pForwardCmd_Run e req w \<noteq> Inl NilDereference)"
  using forward_parse_error [of e req n listen addr err w] forward_no_nil [of e req w]
  by (simp add: forwardLocal_panic_iff forwardLocal_Some)

lemma example_ParseString_contract: "ParseString_contract example_env"
  by (simp add: ParseString_contract_def example_env_def)

theorem forwardLocal_nil_witness:
  "forwardLocal example_env ''/x/p'' (Multiaddr ''/ip4/127.0.0.1/tcp/4002'') None example_world
     = Inl NilDereference
   \<and> p2pForwardCmd_Run example_env
        (example_request [''/x/p'', ''/ip4/127.0.0.1/tcp/4002'', ''QmPeer''] [] []) example_world
      = Inr (Inl (ErrorString ''invalid ipfs address''), example_world)
   \<and> p2pForwardCmd_Run example_env
        (example_request [''/x/p'', ''/ip4/127.0.0.1/tcp/4002'', ''/ipfs/QmPeer''] [] [])
        example_world \<noteq> Inl NilDereference"
proof -
  let ?bad = "example_request [''/x/p'', ''/ip4/127.0.0.1/tcp/4002'', ''QmPeer''] [] []"
  let ?good = "example_request [''/x/p'', ''/ip4/127.0.0.1/tcp/4002'', ''/ipfs/QmPeer''] [] []"
  have a: "Arguments ?bad = [''/x/p'', ''/ip4/127.0.0.1/tcp/4002'', ''QmPeer'']"
    by (simp add: example_request_def)
  have e: "NewMultiaddr example_env ''/ip4/127.0.0.1/tcp/4002''
             = Inr (Multiaddr ''/ip4/127.0.0.1/tcp/4002'')"
    "ParseString example_env ''QmPeer'' = (None, Some (ErrorString ''invalid ipfs address''))"
    by (simp_all add: example_env_def HasPrefix_def)
  note r1 = forwardLocal_nil [where e = example_env and proto = "''/x/p''"
      and bindAddr = "Multiaddr ''/ip4/127.0.0.1/tcp/4002''" and addr = None and w = example_world
      and req = ?bad and n = example_node and listen = "Multiaddr ''/ip4/127.0.0.1/tcp/4002''"
      and err = "ErrorString ''invalid ipfs address''"]
  note r2 = forwardLocal_nil [where e = example_env and req = ?good and w = example_world
      and addr = None]
  from r1 r2 show ?thesis
    by (simp add: example_gate a e example_ParseString_contract)
qed

section \<open>stream close: one handle\<close>

lemma range_entries_Nil: "range_entries m [] = []"
  by (simp add: range_entries_def)

lemma range_entries_Cons:
  "range_entries m (k # ks) =
     (case m k of None \<Rightarrow> range_entries m ks | Some v \<Rightarrow> (k, v) # range_entries m ks)"
  by (simp add: range_entries_def split: option.splits)

lemma range_entries_set:
  "set (range_entries m ks) = {(k, v). k \<in> set ks \<and> m k = Some v}"
  by (induction ks) (auto simp add: range_entries_Nil range_entries_Cons split: option.splits)

lemma range_entries_keys:
  "set ks \<subseteq> dom m \<Longrightarrow> map fst (range_entries m ks) = ks"
  by (induction ks) (auto simp add: range_entries_Nil range_entries_Cons split: option.splits)

lemma range_entries_complete:
  assumes "iteration_order m ks"
  shows "map fst (range_entries m ks) = ks"
    and "distinct (map fst (range_entries m ks))"
    and "set (range_entries m ks) = {(k, v). m k = Some v}"
proof -
  from assms have d: "distinct ks" and s: "set ks = dom m"
    by (simp_all add: iteration_order_def)
  from s show k: "map fst (range_entries m ks) = ks"
    by (simp add: range_entries_keys)
  from d k show "distinct (map fst (range_entries m ks))" by simp
  from s show "set (range_entries m ks) = {(k, v). m k = Some v}"
    by (auto simp add: range_entries_set)
qed

lemma range_entries_handles:
  assumes "iteration_order m ks"
  shows "H \<in> fst ` set (range_entries m ks) \<longleftrightarrow> H \<in> dom m"
proof -
  have "fst ` set (range_entries m ks) = set (map fst (range_entries m ks))" by simp
  also have "\<dots> = set ks" using range_entries_complete(1) [OF assms] by simp
  also have "\<dots> = dom m" using assms by (simp add: iteration_order_def)
  finally show ?thesis by simp
qed

lemma Stream_Reset_absent: "Streams w H = None \<Longrightarrow> w\<lparr>Streams := (Streams w)(H := None)\<rparr> = w"
  by (simp add: fun_upd_idem)

lemma stream_close_run:
  assumes gate: "p2pGetNode e req = Inr n"
    and all: "fst (Option_Bool req ''all'') = False"
    and args: "Arguments req = a # rest"
    and parse: "ParseUint e a = Inr H"
    and ord: "iteration_order (Streams w) order"
  shows "p2pStreamCloseCmd_Run e req w order
           = Inr (Inr OutNil, w\<lparr>Streams := (Streams w)(H := None)\<rparr>)"
proof (cases "Streams w H")
  case None
  then have "H \<notin> dom (Streams w)" by auto
  with ord have "H \<notin> fst ` set (range_entries (Streams w) order)"
    by (simp add: range_entries_handles)
  then show ?thesis
    by (simp add: p2pStreamCloseCmd_Run_def gate all args parse stream_close_loop_one
          Stream_Reset_absent [OF None])
next
  case (Some s)
  then have "H \<in> dom (Streams w)" by auto
  with ord have "H \<in> fst ` set (range_entries (Streams w) order)"
    by (simp add: range_entries_handles)
  then show ?thesis
    by (simp add: p2pStreamCloseCmd_Run_def gate all args parse stream_close_loop_one
          Stream_Reset_def)
qed

lemma stream_ls_run:
  assumes gate: "p2pGetNode e req = Inr n"
  shows "p2pStreamLsCmd_Run e req w order
           = Inr (Inr (P2PStreamsOutput (map (stream_info e) (range_entries (Streams w) order))), w)"
  by (simp add: p2pStreamLsCmd_Run_def gate p2pStreamLs_loop_eq)

text \<open>
  C6. A stream close call without \<open>--all\<close> whose argument parses to the handle \<open>H\<close>,
  on a node that passes the check, for every order in which the loop can visit the
  registry: \<open>Reset\<close> is called on the stream registered under \<open>H\<close> and on no other
  (on none when \<open>H\<close> is not registered); on any sequence of entries the loop calls
  \<open>Reset\<close> at most once, at the first entry with handle \<open>H\<close>, and stops there; the
  registry afterwards is the one before without \<open>H\<close>, and a following stream ls lists
  exactly the other streams, once each.
\<close>

theorem stream_close_handle:
  assumes gate: "p2pGetNode e req = Inr n"
    and all: "fst (Option_Bool req ''all'') = False"
    and args: "Arguments req = a # rest"
    and parse: "ParseUint e a = Inr H"
    and ord: "iteration_order (Streams w) order"
    and gate': "p2pGetNode e req' = Inr n'"
    and ord': "iteration_order ((Streams w)(H := None)) order'"
  shows "stream_close_loop (fst (Option_Bool req ''all'')) H (range_entries (Streams w) order)
           = (if H \<in> dom (Streams w) then [H] else [])
         \<and> (\<forall>kvs. stream_close_loop False H kvs = (if H \<in> fst ` set kvs then [H] else []))
         \<and> p2pStreamCloseCmd_Run e req w order
             = Inr (Inr OutNil, w\<lparr>Streams := (Streams w)(H := None)\<rparr>)
         \<and> (\<exists>kvs. p2pStreamLsCmd_Run e req' (snd (projr (p2pStreamCloseCmd_Run e req w order))) order'
                    = Inr (Inr (P2PStreamsOutput (map (stream_info e) kvs)),
                           w\<lparr>Streams := (Streams w)(H := None)\<rparr>)
                \<and> distinct (map fst kvs)
                \<and> set kvs = {(h, s). h \<noteq> H \<and> Streams w h = Some s})"
proof -
  let ?w' = "w\<lparr>Streams := (Streams w)(H := None)\<rparr>"
  have run: "p2pStreamCloseCmd_Run e req w order = Inr (Inr OutNil, ?w')"
    by (rule stream_close_run [OF gate all args parse ord])
  have one: "stream_close_loop False H (range_entries (Streams w) order)
               = (if H \<in> dom (Streams w) then [H] else [])"
    by (simp only: stream_close_loop_one range_entries_handles [OF ord])
  from ord' have ord'': "iteration_order (Streams ?w') order'" by simp
  have ls: "p2pStreamLsCmd_Run e req' ?w' order'
              = Inr (Inr (P2PStreamsOutput (map (stream_info e) (range_entries (Streams ?w') order'))), ?w')"
    by (rule stream_ls_run [OF gate'])
  have s: "set (range_entries (Streams ?w') order') = {(h, s). h \<noteq> H \<and> Streams w h = Some s}"
    using range_entries_complete(3) [OF ord''] by (auto split: if_splits)
  have "\<exists>kvs. p2pStreamLsCmd_Run e req' ?w' order'
                    = Inr (Inr (P2PStreamsOutput (map (stream_info e) kvs)), ?w')
                \<and> distinct (map fst kvs)
                \<and> set kvs = {(h, s). h \<noteq> H \<and> Streams w h = Some s}"
    using ls range_entries_complete(2) [OF ord''] s by blast
  then have after: "\<exists>kvs. p2pStreamLsCmd_Run e req'
                      (snd (projr (p2pStreamCloseCmd_Run e req w order))) order'
                    = Inr (Inr (P2PStreamsOutput (map (stream_info e) kvs)), ?w')
                \<and> distinct (map fst kvs)
                \<and> set kvs = {(h, s). h \<noteq> H \<and> Streams w h = Some s}"
    by (simp add: run)
  from one have first: "stream_close_loop (fst (Option_Bool req ''all'')) H
                          (range_entries (Streams w) order)
                        = (if H \<in> dom (Streams w) then [H] else [])"
    by (simp only: all)
  have stop: "\<forall>kvs. stream_close_loop False H kvs = (if H \<in> fst ` set kvs then [H] else [])"
    by (simp add: stream_close_loop_one)
  from first stop run after show ?thesis by blast
qed

lemma example_ParseUint_1: "ParseUint example_env ''1'' = Inr 1"
  by (simp add: example_env_def example_ParseUint_def from_decimal_def)

lemma example_ParseUint_7: "ParseUint example_env ''7'' = Inr 7"
  by (simp add: example_env_def example_ParseUint_def from_decimal_def)

lemma example_orders:
  "iteration_order (Streams example_world) [1, 2]"
  "iteration_order (Streams example_world) [2, 1]"
  "iteration_order ((Streams example_world)(1 := None)) [2]"
  by (auto simp add: iteration_order_def example_world_def split: if_splits)

lemma example_FormatUint:
  "FormatUint example_env 1 = ''1''" "FormatUint example_env 2 = ''2''"
  by (simp_all add: example_env_def decimal.simps)

theorem stream_close_handle_witness:
  "p2pStreamCloseCmd_Run example_env (example_request [''1''] [] []) example_world [2, 1]
     = Inr (Inr OutNil, example_world\<lparr>Streams := (Streams example_world)(1 := None)\<rparr>)
   \<and> stream_close_loop False 1 (range_entries (Streams example_world) [2, 1]) = [1]"
proof -
  let ?req = "example_request [''1''] [] []"
  have r: "fst (Option_Bool ?req ''all'') = False" "Arguments ?req = [''1'']"
    by (simp_all add: example_request_def)
  have d: "1 \<in> dom (Streams example_world)"
    by (simp add: example_world_def)
  note t = stream_close_handle [OF example_gate [of example_env "[''1'']" "[]" "[]"] r
      example_ParseUint_1 example_orders(2) example_gate [of example_env "[]" "[]" "[]"]
      example_orders(3)]
  from t have a: "stream_close_loop (fst (Option_Bool ?req ''all'')) 1
                    (range_entries (Streams example_world) [2, 1])
                  = (if 1 \<in> dom (Streams example_world) then [1] else [])"
    by (rule conjunct1)
  from t have b: "p2pStreamCloseCmd_Run example_env ?req example_world [2, 1]
     = Inr (Inr OutNil, example_world\<lparr>Streams := (Streams example_world)(1 := None)\<rparr>)"
    by blast
  from a d have "stream_close_loop False 1 (range_entries (Streams example_world) [2, 1]) = [1]"
    by (simp only: r if_True)
  with b show ?thesis by (rule conjI)
qed

section \<open>Closing what is not registered\<close>

lemma close_run_valid:
  assumes gate: "p2pGetNode e req = Inr n"
    and po: "Option_String req ''protocol'' = (proto, p, perr)"
    and lo: "Option_String req ''listen-address'' = (listenOpt, l, lerr)"
    and to: "Option_String req ''target-address'' = (targetOpt, t, terr)"
    and lp: "NewMultiaddr e listenOpt = Inr listen"
    and tp: "NewMultiaddr e targetOpt = Inr target"
    and some: "fst (Option_Bool req ''all'') \<or> p \<or> l \<or> t"
    and excl: "\<not> (fst (Option_Bool req ''all'') \<and> (p \<or> l \<or> t))"
  shows "p2pCloseCmd_Run e req w =
           Inr (Inr (OutInt (length (filter (match (fst (Option_Bool req ''all'')) p l t proto listen target)
                                       (Listeners w)))),
                w\<lparr>Listeners := filter (\<lambda>x. \<not> match (fst (Option_Bool req ''all'')) p l t proto listen target x)
                                  (Listeners w)\<rparr>)"
proof -
  from some have ne: "\<not> (\<not> fst (Option_Bool req ''all'') \<and> \<not> p \<and> \<not> l \<and> \<not> t)" by blast
  from excl have ex: "\<not> (fst (Option_Bool req ''all'') \<and> (p \<or> l \<or> t))" .
  show ?thesis
    using ne ex
    by (simp add: p2pCloseCmd_Run_def gate po lo to lp tp todo_loop_eq Let_def
          close_loop_registry)
qed

text \<open>
  C7, as the code has it. The commands have no not-found error. A stream close whose
  handle is not registered, and a close whose criteria (at least one, without \<open>--all\<close>)
  match no registered listener, succeed once the node check and the parsing pass: the
  first returns nil, the second the count 0, and both leave the state unchanged.
\<close>

theorem close_unmatched:
  "(p2pGetNode e req = Inr n \<and> fst (Option_Bool req ''all'') = False
      \<and> Arguments req = a # rest \<and> ParseUint e a = Inr H
      \<and> iteration_order (Streams w) order \<and> Streams w H = None
    \<longrightarrow> p2pStreamCloseCmd_Run e req w order = Inr (Inr OutNil, w))
   \<and> (p2pGetNode e creq = Inr n \<and> fst (Option_Bool creq ''all'') = False
      \<and> Option_String creq ''protocol'' = (proto, p, perr)
      \<and> Option_String creq ''listen-address'' = (listenOpt, l, lerr)
      \<and> Option_String creq ''target-address'' = (targetOpt, t, terr)
      \<and> NewMultiaddr e listenOpt = Inr listen \<and> NewMultiaddr e targetOpt = Inr target
      \<and> (p \<or> l \<or> t)
      \<and> (\<forall>x \<in> set (Listeners w). \<not> every_specified_criterion_equal p l t proto listen target x)
    \<longrightarrow> p2pCloseCmd_Run e creq w = Inr (Inr (OutInt 0), w))"
proof (intro conjI impI)
  assume h: "p2pGetNode e req = Inr n \<and> fst (Option_Bool req ''all'') = False
      \<and> Arguments req = a # rest \<and> ParseUint e a = Inr H
      \<and> iteration_order (Streams w) order \<and> Streams w H = None"
  then have "p2pStreamCloseCmd_Run e req w order
               = Inr (Inr OutNil, w\<lparr>Streams := (Streams w)(H := None)\<rparr>)"
    using stream_close_run [of e req n a rest H w order] by blast
  with h show "p2pStreamCloseCmd_Run e req w order = Inr (Inr OutNil, w)"
    by (simp add: Stream_Reset_absent)
next
  assume h: "p2pGetNode e creq = Inr n \<and> fst (Option_Bool creq ''all'') = False
      \<and> Option_String creq ''protocol'' = (proto, p, perr)
      \<and> Option_String creq ''listen-address'' = (listenOpt, l, lerr)
      \<and> Option_String creq ''target-address'' = (targetOpt, t, terr)
      \<and> NewMultiaddr e listenOpt = Inr listen \<and> NewMultiaddr e targetOpt = Inr target
      \<and> (p \<or> l \<or> t)
      \<and> (\<forall>x \<in> set (Listeners w). \<not> every_specified_criterion_equal p l t proto listen target x)"
  then have none: "\<forall>x \<in> set (Listeners w). \<not> match False p l t proto listen target x"
    by (simp add: match_specified)
  then have f: "filter (match False p l t proto listen target) (Listeners w) = []"
    "filter (\<lambda>x. \<not> match False p l t proto listen target x) (Listeners w) = Listeners w"
    by (simp_all add: filter_empty_conv filter_id_conv)
  from h have "p2pCloseCmd_Run e creq w =
           Inr (Inr (OutInt (length (filter (match (fst (Option_Bool creq ''all'')) p l t proto listen target)
                                       (Listeners w)))),
                w\<lparr>Listeners := filter (\<lambda>x. \<not> match (fst (Option_Bool creq ''all'')) p l t proto listen target x)
                                  (Listeners w)\<rparr>)"
    using close_run_valid [of e creq n proto p perr listenOpt l lerr targetOpt t terr listen target w]
    by simp
  with h f show "p2pCloseCmd_Run e creq w = Inr (Inr (OutInt 0), w)"
    by simp
qed

text \<open>
  C7, as stated, fails: no stream is registered under handle 7 and no listener has the
  protocol \<open>/x/p9\<close>, and both calls report success.
\<close>

theorem close_unmatched_counterexample:
  "Streams example_world 7 = None
   \<and> filter (\<lambda>x. Protocol x = ''/x/p9'') (Listeners example_world) = []
   \<and> p2pStreamCloseCmd_Run example_env (example_request [''7''] [] []) example_world [1, 2]
     = Inr (Inr OutNil, example_world)
   \<and> p2pCloseCmd_Run example_env (example_request [] [] [(''protocol'', ''/x/p9'')]) example_world
     = Inr (Inr (OutInt 0), example_world)"
proof -
  let ?req = "example_request [''7''] [] []"
  let ?creq = "example_request [] [] [(''protocol'', ''/x/p9'')]"
  have r: "fst (Option_Bool ?req ''all'') = False" "Arguments ?req = [''7'']"
    by (simp_all add: example_request_def)
  have n: "Streams example_world 7 = None"
    by (simp add: example_world_def)
  have "p2pStreamCloseCmd_Run example_env ?req example_world [1, 2]
          = Inr (Inr OutNil, example_world\<lparr>Streams := (Streams example_world)(7 := None)\<rparr>)"
    by (rule stream_close_run [OF example_gate r example_ParseUint_7 example_orders(1)])
  then have s: "p2pStreamCloseCmd_Run example_env ?req example_world [1, 2]
                  = Inr (Inr OutNil, example_world)"
    by (simp add: Stream_Reset_absent [OF n])
  have c: "Option_String ?creq ''protocol'' = (''/x/p9'', True, None)"
    "Option_String ?creq ''listen-address'' = ([], False, None)"
    "Option_String ?creq ''target-address'' = ([], False, None)"
    "fst (Option_Bool ?creq ''all'') = False"
    by (simp_all add: example_request_def)
  have parse: "NewMultiaddr example_env [] = Inr (Multiaddr [])"
    by (simp add: example_env_def)
  have "p2pCloseCmd_Run example_env ?creq example_world = Inr (Inr (OutInt 0), example_world)"
    using close_run_valid [OF example_gate c(1,2,3) parse parse, of example_world]
    by (simp add: c(4) match_def example_world_def listener1_def listener2_def listener3_def)
  moreover have "filter (\<lambda>x. Protocol x = ''/x/p9'') (Listeners example_world) = []"
    by (simp add: example_world_def listener1_def listener2_def listener3_def)
  ultimately show ?thesis using s n by blast
qed

theorem close_unmatched_witness:
  "p2pStreamCloseCmd_Run example_env (example_request [''7''] [] []) example_world [2, 1]
     = Inr (Inr OutNil, example_world)
   \<and> p2pCloseCmd_Run example_env
       (example_request [] [] [(''protocol'', ''/x/p2''), (''target-address'', ''/ipfs/QmOther'')])
       example_world
     = Inr (Inr (OutInt 0), example_world)"
proof -
  let ?req = "example_request [''7''] [] []"
  let ?creq = "example_request [] [] [(''protocol'', ''/x/p2''), (''target-address'', ''/ipfs/QmOther'')]"
  have r: "fst (Option_Bool ?req ''all'') = False" "Arguments ?req = [''7'']"
    by (simp_all add: example_request_def)
  have n: "Streams example_world 7 = None"
    by (simp add: example_world_def)
  have c: "fst (Option_Bool ?creq ''all'') = False"
    "Option_String ?creq ''protocol'' = (''/x/p2'', True, None)"
    "Option_String ?creq ''listen-address'' = ([], False, None)"
    "Option_String ?creq ''target-address'' = (''/ipfs/QmOther'', True, None)"
    by (simp_all add: example_request_def)
  have parse: "NewMultiaddr example_env [] = Inr (Multiaddr [])"
    "NewMultiaddr example_env ''/ipfs/QmOther'' = Inr (Multiaddr ''/ipfs/QmOther'')"
    by (simp_all add: example_env_def)
  have nomatch: "\<forall>x \<in> set (Listeners example_world).
      \<not> every_specified_criterion_equal True False True ''/x/p2'' (Multiaddr [])
          (Multiaddr ''/ipfs/QmOther'') x"
    by (simp add: every_specified_criterion_equal_def example_world_def listener1_def
          listener2_def listener3_def)
  note t = close_unmatched [where e = example_env and req = ?req and n = example_node
      and a = "''7''" and rest = "[]" and H = 7 and w = example_world and order = "[2, 1]"
      and creq = ?creq and proto = "''/x/p2''" and p = True and perr = None
      and listenOpt = "[]" and l = False and lerr = None
      and targetOpt = "''/ipfs/QmOther''" and t = True and terr = None
      and listen = "Multiaddr []" and target = "Multiaddr ''/ipfs/QmOther''"]
  from t show ?thesis
    using nomatch
    by (simp add: example_gate r n c parse example_ParseUint_7 example_orders)
qed

section \<open>ls and stream ls: the listings\<close>

lemma range_entries_mset:
  assumes "iteration_order m ks" and "iteration_order m ks'"
  shows "mset (range_entries m ks) = mset (range_entries m ks')"
proof -
  have d: "distinct (range_entries m ks)" "distinct (range_entries m ks')"
    using range_entries_complete(2) [OF assms(1)] range_entries_complete(2) [OF assms(2)]
    by (simp_all add: distinct_map)
  have "set (range_entries m ks) = set (range_entries m ks')"
    by (simp only: range_entries_complete(3) [OF assms(1)] range_entries_complete(3) [OF assms(2)])
  with d show ?thesis
    by (simp add: set_eq_iff_mset_eq_distinct)
qed

lemma ls_run:
  assumes gate: "p2pGetNode e req = Inr n"
  shows "p2pLsCmd_Run e req w = Inr (Inr (P2PLsOutput (map (listener_info e) (Listeners w))), w)"
  by (simp add: p2pLsCmd_Run_def gate p2pLs_loop_eq)

text \<open>
  C8, as the code has it. On a node that passes the check, ls returns one entry for
  every registered listener, in the order of the registry, and is a function of the
  state. Stream ls returns one entry for every registered stream, in the order in
  which the \<open>range\<close> visits the Go map; the language does not fix that order, so two
  calls on the same state return permutations of each other.
\<close>

theorem listings_complete:
  assumes gate: "p2pGetNode e req = Inr n"
  shows "p2pLsCmd_Run e req w
           = Inr (Inr (P2PLsOutput (map (listener_info e) (Listeners w))), w)
         \<and> (iteration_order (Streams w) order \<longrightarrow>
              (\<exists>kvs. p2pStreamLsCmd_Run e req w order
                        = Inr (Inr (P2PStreamsOutput (map (stream_info e) kvs)), w)
                    \<and> map fst kvs = order
                    \<and> set kvs = {(h, s). Streams w h = Some s}))
         \<and> (iteration_order (Streams w) order \<and> iteration_order (Streams w) order' \<longrightarrow>
              (\<exists>out out'. p2pStreamLsCmd_Run e req w order = Inr (Inr (P2PStreamsOutput out), w)
                    \<and> p2pStreamLsCmd_Run e req w order' = Inr (Inr (P2PStreamsOutput out'), w)
                    \<and> mset out = mset out'))"
proof (intro conjI impI)
  show "p2pLsCmd_Run e req w = Inr (Inr (P2PLsOutput (map (listener_info e) (Listeners w))), w)"
    by (rule ls_run [OF gate])
next
  assume ord: "iteration_order (Streams w) order"
  show "\<exists>kvs. p2pStreamLsCmd_Run e req w order
                        = Inr (Inr (P2PStreamsOutput (map (stream_info e) kvs)), w)
                    \<and> map fst kvs = order
                    \<and> set kvs = {(h, s). Streams w h = Some s}"
    using stream_ls_run [OF gate, of w order] range_entries_complete(1,3) [OF ord]
    by blast
next
  assume ord: "iteration_order (Streams w) order \<and> iteration_order (Streams w) order'"
  then have "mset (map (stream_info e) (range_entries (Streams w) order))
               = mset (map (stream_info e) (range_entries (Streams w) order'))"
    using range_entries_mset [of "Streams w" order order'] by simp
  then show "\<exists>out out'. p2pStreamLsCmd_Run e req w order = Inr (Inr (P2PStreamsOutput out), w)
                    \<and> p2pStreamLsCmd_Run e req w order' = Inr (Inr (P2PStreamsOutput out'), w)
                    \<and> mset out = mset out'"
    using stream_ls_run [OF gate, of w order] stream_ls_run [OF gate, of w order']
    by blast
qed

lemma example_entries:
  "range_entries (Streams example_world) [1, 2] = [(1, stream1), (2, stream2)]"
  "range_entries (Streams example_world) [2, 1] = [(2, stream2), (1, stream1)]"
  by (simp_all add: range_entries_Cons range_entries_Nil example_world_def)

lemma example_stream_info:
  "stream_info example_env (1, stream1)
     = P2PStreamInfoOutput ''1'' ''/x/p1'' ''/ip4/127.0.0.1/tcp/5001'' ''/ipfs/QmPeer''"
  "stream_info example_env (2, stream2)
     = P2PStreamInfoOutput ''2'' ''/x/p2'' ''/ipfs/QmOther'' ''/ip4/127.0.0.1/tcp/80''"
  by (simp_all add: stream_info_def example_FormatUint stream1_def stream2_def)
     (simp_all add: example_env_def)

text \<open>
  C8, as stated, fails: the map of \<open>example_world\<close> can be visited in the orders 1, 2
  and 2, 1, and the two listings of the same state differ.
\<close>

theorem stream_listing_order_counterexample:
  "iteration_order (Streams example_world) [1, 2]
   \<and> iteration_order (Streams example_world) [2, 1]
   \<and> p2pStreamLsCmd_Run example_env (example_request [] [] []) example_world [1, 2]
      = Inr (Inr (P2PStreamsOutput
          [P2PStreamInfoOutput ''1'' ''/x/p1'' ''/ip4/127.0.0.1/tcp/5001'' ''/ipfs/QmPeer'',
           P2PStreamInfoOutput ''2'' ''/x/p2'' ''/ipfs/QmOther'' ''/ip4/127.0.0.1/tcp/80'']),
          example_world)
   \<and> p2pStreamLsCmd_Run example_env (example_request [] [] []) example_world [2, 1]
      = Inr (Inr (P2PStreamsOutput
          [P2PStreamInfoOutput ''2'' ''/x/p2'' ''/ipfs/QmOther'' ''/ip4/127.0.0.1/tcp/80'',
           P2PStreamInfoOutput ''1'' ''/x/p1'' ''/ip4/127.0.0.1/tcp/5001'' ''/ipfs/QmPeer'']),
          example_world)
   \<and> p2pStreamLsCmd_Run example_env (example_request [] [] []) example_world [1, 2]
      \<noteq> p2pStreamLsCmd_Run example_env (example_request [] [] []) example_world [2, 1]"
  by (simp add: example_orders stream_ls_run [OF example_gate] example_entries example_stream_info)

theorem listings_complete_witness:
  "p2pLsCmd_Run example_env (example_request [] [] []) example_world
     = Inr (Inr (P2PLsOutput
         [P2PListenerInfoOutput ''/x/p1'' ''/ip4/127.0.0.1/tcp/4001'' ''/ipfs/QmPeer'',
          P2PListenerInfoOutput ''/x/p2'' ''/ip4/127.0.0.1/tcp/4001'' ''/ipfs/QmPeer'',
          P2PListenerInfoOutput ''/x/p1'' ''/ipfs/self'' ''/ip4/127.0.0.1/tcp/80'']),
         example_world)
   \<and> (\<exists>out out'.
         p2pStreamLsCmd_Run example_env (example_request [] [] []) example_world [1, 2]
           = Inr (Inr (P2PStreamsOutput out), example_world)
       \<and> p2pStreamLsCmd_Run example_env (example_request [] [] []) example_world [2, 1]
           = Inr (Inr (P2PStreamsOutput out'), example_world)
       \<and> mset out = mset out')"
proof -
  note t = listings_complete [OF example_gate, of example_env "[]" "[]" "[]" example_world
      "[1, 2]" "[2, 1]"]
  have l: "map (listener_info example_env) (Listeners example_world) =
         [P2PListenerInfoOutput ''/x/p1'' ''/ip4/127.0.0.1/tcp/4001'' ''/ipfs/QmPeer'',
          P2PListenerInfoOutput ''/x/p2'' ''/ip4/127.0.0.1/tcp/4001'' ''/ipfs/QmPeer'',
          P2PListenerInfoOutput ''/x/p1'' ''/ipfs/self'' ''/ip4/127.0.0.1/tcp/80'']"
    by (simp add: listener_info_def example_world_def listener1_def listener2_def listener3_def)
       (simp add: example_env_def)
  from t have a: "p2pLsCmd_Run example_env (example_request [] [] []) example_world
           = Inr (Inr (P2PLsOutput (map (listener_info example_env) (Listeners example_world))),
                  example_world)"
    by (rule conjunct1)
  from t example_orders(1,2) have b: "\<exists>out out'.
         p2pStreamLsCmd_Run example_env (example_request [] [] []) example_world [1, 2]
           = Inr (Inr (P2PStreamsOutput out), example_world)
       \<and> p2pStreamLsCmd_Run example_env (example_request [] [] []) example_world [2, 1]
           = Inr (Inr (P2PStreamsOutput out'), example_world)
       \<and> mset out = mset out'"
    by blast
  from a b show ?thesis by (simp only: l simp_thms)
qed

end
